theory Spec2Isabelle
  imports Main "HOL-Library.Sublist" "HOL-Library.Word"
begin

unbundle bit_operations_syntax

section \<open>Errors\<close>

text \<open>
  The exceptions of the program as values. \<open>AccountManagementException\<close> carries the
  message string the source passes to it; the other constructors are the built-in
  Python exceptions that the source does not catch.
\<close>

datatype error =
    AccountManagementException string
  | AttributeError string
  | ValueError
  | KeyError string

section \<open>Regular expressions: \<open>re.compile(pattern).fullmatch(value)\<close>\<close>

text \<open>
  Strings are \<^typ>\<open>string\<close>: a character is a code point below 256. The patterns of the
  source are written as terms of \<open>rexp\<close>; \<open>fullmatch\<close> decides whether the whole string
  is matched, by taking the derivative of the expression along the string.
  \<open>Cls cs\<close> is a character class, \<open>NCls cs\<close> a negated one, \<open>And\<close> is used for a
  lookahead that spans the whole string.
\<close>

datatype rexp =
    Zero
  | One
  | Cls "char list"
  | NCls "char list"
  | Alt rexp rexp
  | Seq rexp rexp
  | Star rexp
  | And rexp rexp

fun nullable :: "rexp \<Rightarrow> bool" where
  "nullable Zero = False"
| "nullable One = True"
| "nullable (Cls cs) = False"
| "nullable (NCls cs) = False"
| "nullable (Alt r s) = (nullable r \<or> nullable s)"
| "nullable (Seq r s) = (nullable r \<and> nullable s)"
| "nullable (Star r) = True"
| "nullable (And r s) = (nullable r \<and> nullable s)"

fun deriv :: "char \<Rightarrow> rexp \<Rightarrow> rexp" where
  "deriv c Zero = Zero"
| "deriv c One = Zero"
| "deriv c (Cls cs) = (if c \<in> set cs then One else Zero)"
| "deriv c (NCls cs) = (if c \<in> set cs then Zero else One)"
| "deriv c (Alt r s) = Alt (deriv c r) (deriv c s)"
| "deriv c (Seq r s) =
     (if nullable r then Alt (Seq (deriv c r) s) (deriv c s) else Seq (deriv c r) s)"
| "deriv c (Star r) = Seq (deriv c r) (Star r)"
| "deriv c (And r s) = And (deriv c r) (deriv c s)"

fun fullmatch :: "rexp \<Rightarrow> string \<Rightarrow> bool" where
  "fullmatch r [] = nullable r"
| "fullmatch r (c # cs) = fullmatch (deriv c r) cs"

text \<open>Pattern building blocks: a literal, \<open>r+\<close>, \<open>r?\<close>, \<open>r{n}\<close> and \<open>r{0,n}\<close>.\<close>

fun lit :: "string \<Rightarrow> rexp" where
  "lit [] = One"
| "lit (c # cs) = Seq (Cls [c]) (lit cs)"

definition plus_re :: "rexp \<Rightarrow> rexp" where
  "plus_re r = Seq r (Star r)"

definition opt :: "rexp \<Rightarrow> rexp" where
  "opt r = Alt One r"

fun rep :: "nat \<Rightarrow> rexp \<Rightarrow> rexp" where
  "rep 0 r = One"
| "rep (Suc n) r = Seq r (rep n r)"

fun upto_re :: "nat \<Rightarrow> rexp \<Rightarrow> rexp" where
  "upto_re 0 r = One"
| "upto_re (Suc n) r = opt (Seq r (upto_re n r))"

definition digit_chars :: "char list" where
  "digit_chars = ''0123456789''"

definition letter_chars :: "char list" where
  "letter_chars = ''abcdefghijklmnopqrstuvwxyzABCDEFGHIJKLMNOPQRSTUVWXYZ''"

text \<open>
  \<open>\s\<close> on a Python \<open>str\<close>: the white space characters below 256 are
  9 to 13, 28 to 32, 133 and 160.
\<close>

definition space_chars :: "char list" where
  "space_chars = map char_of [9, 10, 11, 12, 13, 28, 29, 30, 31, 32, 133, 160 :: nat]"

text \<open>\<open>check_regular(pattern, value)\<close> (\<open>check_regex\<close> in the older account manager).\<close>

definition check_regular :: "rexp \<Rightarrow> string \<Rightarrow> bool" where
  "check_regular pattern v = fullmatch pattern v"

text \<open>
  The language of an expression, for the proofs only.
\<close>

definition conc :: "string set \<Rightarrow> string set \<Rightarrow> string set" where
  "conc A B = {u @ v | u v. u \<in> A \<and> v \<in> B}"

inductive_set star :: "string set \<Rightarrow> string set" for A :: "string set" where
  star_nil: "[] \<in> star A"
| star_app: "u \<in> A \<Longrightarrow> v \<in> star A \<Longrightarrow> u @ v \<in> star A"

fun lang :: "rexp \<Rightarrow> string set" where
  "lang Zero = {}"
| "lang One = {[]}"
| "lang (Cls cs) = {[c] | c. c \<in> set cs}"
| "lang (NCls cs) = {[c] | c. c \<notin> set cs}"
| "lang (Alt r s) = lang r \<union> lang s"
| "lang (Seq r s) = conc (lang r) (lang s)"
| "lang (Star r) = star (lang r)"
| "lang (And r s) = lang r \<inter> lang s"

section \<open>The transfer type\<close>

text \<open>
  \<open>TransferRequest.validate_transfer_type\<close>: the pattern is
  \<open>(ORDINARY|INMEDIATE|URGENT)\<close>, matched with \<open>fullmatch\<close>.
\<close>

definition transfer_type_pattern :: rexp where
  "transfer_type_pattern = Alt (lit ''ORDINARY'') (Alt (lit ''INMEDIATE'') (lit ''URGENT''))"

definition validate_transfer_type :: "string \<Rightarrow> error + unit" where
  "validate_transfer_type transfer_type =
     (if \<not> check_regular transfer_type_pattern transfer_type
      then Inl (AccountManagementException ''Invalid transfer type'')
      else Inr ())"

text \<open>
  The same check inside \<open>AccountManager.transfer_request\<close> of the older account manager:
  the pattern there is \<open>(ORDINARY|IMMEDIATE|URGENT)\<close>.
\<close>

definition transfer_type_pattern_old :: rexp where
  "transfer_type_pattern_old = Alt (lit ''ORDINARY'') (Alt (lit ''IMMEDIATE'') (lit ''URGENT''))"

definition validate_transfer_type_old :: "string \<Rightarrow> error + unit" where
  "validate_transfer_type_old transfer_type =
     (if \<not> check_regular transfer_type_pattern_old transfer_type
      then Inl (AccountManagementException ''Invalid transfer type'')
      else Inr ())"

section \<open>IBAN validation\<close>

text \<open>
  \<open>validate_iban\<close> is the same code in \<open>TransferRequest\<close> and in the older
  \<open>AccountManager\<close>. Its pattern is \<open>^ES[0-9]{22}\<close>, matched with \<open>fullmatch\<close>.
\<close>

definition iban_pattern :: rexp where
  "iban_pattern = Seq (lit ''ES'') (rep 22 (Cls digit_chars))"

text \<open>The slice \<open>s[i:j]\<close> for \<open>0 \<le> i \<le> j\<close>; a slice never raises.\<close>

definition py_slice :: "nat \<Rightarrow> nat \<Rightarrow> string \<Rightarrow> string" where
  "py_slice i j s = take (j - i) (drop i s)"

text \<open>\<open>s.replace(old, new)\<close> where \<open>old\<close> is a single character.\<close>

definition replace_char :: "char \<Rightarrow> string \<Rightarrow> string \<Rightarrow> string" where
  "replace_char old new s = concat (map (\<lambda>c. if c = old then new else [c]) s)"

text \<open>The chain of \<open>replace\<close> calls, in the order of the source.\<close>

definition letter_codes :: "(char \<times> string) list" where
  "letter_codes =
     [(CHR ''A'', ''10''), (CHR ''B'', ''11''), (CHR ''C'', ''12''), (CHR ''D'', ''13''),
      (CHR ''E'', ''14''), (CHR ''F'', ''15''), (CHR ''G'', ''16''), (CHR ''H'', ''17''),
      (CHR ''I'', ''18''), (CHR ''J'', ''19''), (CHR ''K'', ''20''), (CHR ''L'', ''21''),
      (CHR ''M'', ''22''), (CHR ''N'', ''23''), (CHR ''O'', ''24''), (CHR ''P'', ''25''),
      (CHR ''Q'', ''26''), (CHR ''R'', ''27''), (CHR ''S'', ''28''), (CHR ''T'', ''29''),
      (CHR ''U'', ''30''), (CHR ''V'', ''31''), (CHR ''W'', ''32''), (CHR ''X'', ''33''),
      (CHR ''Y'', ''34''), (CHR ''Z'', ''35'')]"

definition replace_letters :: "string \<Rightarrow> string" where
  "replace_letters s = foldl (\<lambda>acc (old, new). replace_char old new acc) s letter_codes"

text \<open>
  The value of a string of decimal digits, and \<open>int(s)\<close>. Python's \<open>int\<close> also accepts
  surrounding white space, a sign and single underscores between digits; every string
  that reaches \<open>int\<close> in this program consists of decimal digits only (lemma
  \<open>validate_iban_no_ValueError\<close>), so all other strings are mapped to \<open>ValueError\<close>.
\<close>

definition digit_val :: "char \<Rightarrow> int" where
  "digit_val c = int (of_char c) - 48"

definition dec_val :: "string \<Rightarrow> int" where
  "dec_val s = foldl (\<lambda>a c. 10 * a + digit_val c) 0 s"

definition py_int :: "string \<Rightarrow> error + int" where
  "py_int s =
     (if s \<noteq> [] \<and> list_all (\<lambda>c. c \<in> set digit_chars) s then Inr (dec_val s)
      else Inl ValueError)"

definition validate_iban :: "string \<Rightarrow> error + string" where
  "validate_iban iban =
     (if \<not> check_regular iban_pattern iban
      then Inl (AccountManagementException ''Invalid IBAN format'')
      else
        let original_code = py_slice 2 4 iban;
            iban1 = take 2 iban @ ''00'' @ drop 4 iban;
            iban2 = drop 4 iban1 @ take 4 iban1;
            iban3 = replace_letters iban2
        in case py_int iban3 of
             Inl e \<Rightarrow> Inl e
           | Inr int_iban \<Rightarrow>
               let md = int_iban mod 97;
                   control_digit = 98 - md
               in case py_int original_code of
                    Inl e \<Rightarrow> Inl e
                  | Inr oc \<Rightarrow>
                      if oc \<noteq> control_digit
                      then Inl (AccountManagementException ''Invalid IBAN control digit'')
                      else Inr iban3)"

text \<open>
  The validator as the specification words it: the format \<open>ES\<close> followed by exactly 22
  decimal digits, and the numeric transform (characters at offsets 2 and 3 replaced by
  \<open>00\<close>, the first four characters moved to the end, \<open>E\<close> written as 14 and \<open>S\<close> as 28).
\<close>

definition spec_iban_format :: "string \<Rightarrow> bool" where
  "spec_iban_format s \<longleftrightarrow>
     length s = 24 \<and> take 2 s = ''ES'' \<and> list_all (\<lambda>c. c \<in> set digit_chars) (drop 2 s)"

definition spec_subst_E_S :: "string \<Rightarrow> string" where
  "spec_subst_E_S s =
     concat (map (\<lambda>c. if c = CHR ''E'' then ''14'' else if c = CHR ''S'' then ''28'' else [c]) s)"

definition spec_numeric_transform :: "string \<Rightarrow> string" where
  "spec_numeric_transform s =
     (let zeroed = (s[2 := CHR ''0''])[3 := CHR ''0'']
      in spec_subst_E_S (drop 4 zeroed @ take 4 zeroed))"

definition spec_check_code :: "string \<Rightarrow> int" where
  "spec_check_code s = dec_val (take 2 (drop 2 s))"

section \<open>The transfer concept\<close>

text \<open>
  \<open>validate_concept\<close>: the pattern is
  \<open>^(?=^.{10,30}$)([a-zA-Z]+(\s[a-zA-Z]+)+)$\<close>. Under \<open>fullmatch\<close> the lookahead at
  the start constrains the whole string: 10 to 30 characters other than a newline,
  then the end of the string or one final newline. It is written as the left operand of
  \<open>And\<close>.
\<close>

definition any_char :: rexp where
  "any_char = NCls [CHR 0x0A]"

definition concept_pattern :: rexp where
  "concept_pattern =
     And (Seq (rep 10 any_char) (Seq (upto_re 20 any_char) (opt (Cls [CHR 0x0A]))))
         (Seq (plus_re (Cls letter_chars))
              (plus_re (Seq (Cls space_chars) (plus_re (Cls letter_chars)))))"

definition validate_concept :: "string \<Rightarrow> error + unit" where
  "validate_concept concept =
     (if \<not> check_regular concept_pattern concept
      then Inl (AccountManagementException ''Invalid concept format'')
      else Inr ())"

section \<open>The transfer date\<close>

text \<open>A calendar date is a triple of year, month and day, ordered as \<open>datetime.date\<close> is.\<close>

type_synonym date = "nat \<times> nat \<times> nat"

definition year_of :: "date \<Rightarrow> nat" where
  "year_of dt = fst dt"

definition date_less :: "date \<Rightarrow> date \<Rightarrow> bool" where
  "date_less a b =
     (case (a, b) of ((y1, m1, d1), (y2, m2, d2)) \<Rightarrow>
        y1 < y2 \<or> (y1 = y2 \<and> (m1 < m2 \<or> (m1 = m2 \<and> d1 < d2))))"

definition is_leap :: "nat \<Rightarrow> bool" where
  "is_leap y = (y mod 4 = 0 \<and> (y mod 100 \<noteq> 0 \<or> y mod 400 = 0))"

definition days_in_month :: "nat \<Rightarrow> nat \<Rightarrow> nat" where
  "days_in_month y m =
     (if m = 2 then (if is_leap y then 29 else 28)
      else if m = 4 \<or> m = 6 \<or> m = 9 \<or> m = 11 then 30 else 31)"

text \<open>The dates \<open>datetime.date(y, m, d)\<close> accepts.\<close>

definition valid_date :: "date \<Rightarrow> bool" where
  "valid_date dt =
     (case dt of (y, m, d) \<Rightarrow>
        1 \<le> y \<and> y \<le> 9999 \<and> 1 \<le> m \<and> m \<le> 12 \<and> 1 \<le> d \<and> d \<le> days_in_month y m)"

text \<open>\<open>s.split(sep)\<close> for a single character separator.\<close>

fun py_split :: "char \<Rightarrow> string \<Rightarrow> string list" where
  "py_split sep [] = [[]]"
| "py_split sep (c # cs) =
     (if c = sep then [] # py_split sep cs
      else (case py_split sep cs of
              [] \<Rightarrow> [[c]]
            | w # ws \<Rightarrow> (c # w) # ws))"

text \<open>
  \<open>datetime.strptime(s, "%d/%m/%Y").date()\<close>, a function of the Python library. The
  library turns the directives into the patterns \<open>3[0-1]|[1-2]\d|0[1-9]|[1-9]| [1-9]\<close>
  for the day, \<open>1[0-2]|0[1-9]|[1-9]\<close> for the month and \<open>\d\d\d\d\<close> for the year, which
  have to match the whole string with the two slashes between them, and builds the date
  from the numbers; every failure is a \<open>ValueError\<close>.
\<close>

definition strptime_day :: rexp where
  "strptime_day =
     Alt (Seq (lit ''3'') (Cls ''01''))
      (Alt (Seq (Cls ''12'') (Cls digit_chars))
        (Alt (Seq (lit ''0'') (Cls ''123456789''))
          (Alt (Cls ''123456789'') (Seq (lit '' '') (Cls ''123456789'')))))"

definition strptime_month :: rexp where
  "strptime_month =
     Alt (Seq (lit ''1'') (Cls ''012''))
      (Alt (Seq (lit ''0'') (Cls ''123456789'')) (Cls ''123456789''))"

definition strptime_year :: rexp where
  "strptime_year = rep 4 (Cls digit_chars)"

definition field_val :: "string \<Rightarrow> nat" where
  "field_val s = nat (dec_val (dropWhile (\<lambda>c. c = CHR '' '') s))"

definition strptime_dmY :: "string \<Rightarrow> error + date" where
  "strptime_dmY s =
     (case py_split (CHR ''/'') s of
        [d, m, y] \<Rightarrow>
          if fullmatch strptime_day d \<and> fullmatch strptime_month m \<and> fullmatch strptime_year y
          then (let dt = (field_val y, field_val m, field_val d)
                in if valid_date dt then Inr dt else Inl ValueError)
          else Inl ValueError
      | _ \<Rightarrow> Inl ValueError)"

text \<open>
  \<open>validate_transfer_date\<close>: the pattern is
  \<open>^(([0-2]\d|3[0-1])\/(0\d|1[0-2])\/\d\d\d\d)$\<close>. The current UTC date, which the source
  reads from the clock, is the argument \<open>today\<close>.
\<close>

definition date_pattern :: rexp where
  "date_pattern =
     Seq (Alt (Seq (Cls ''012'') (Cls digit_chars)) (Seq (lit ''3'') (Cls ''01'')))
      (Seq (lit ''/'')
        (Seq (Alt (Seq (lit ''0'') (Cls digit_chars)) (Seq (lit ''1'') (Cls ''012'')))
          (Seq (lit ''/'') (rep 4 (Cls digit_chars)))))"

definition validate_transfer_date :: "date \<Rightarrow> string \<Rightarrow> error + string" where
  "validate_transfer_date today transfer_date =
     (if \<not> check_regular date_pattern transfer_date
      then Inl (AccountManagementException ''Invalid date format'')
      else
        case strptime_dmY transfer_date of
          Inl ValueError \<Rightarrow> Inl (AccountManagementException ''Invalid date format'')
        | Inl e \<Rightarrow> Inl e
        | Inr my_date \<Rightarrow>
            if date_less my_date today
            then Inl (AccountManagementException ''Transfer date must be today or later.'')
            else if year_of my_date < 2025 \<or> year_of my_date > 2050
            then Inl (AccountManagementException ''Invalid date format'')
            else Inr transfer_date)"

text \<open>
  The date rule as the specification words it: the form \<open>DD/MM/YYYY\<close> (two digits, a
  slash, two digits, a slash, four digits), the date these numbers denote, and the text
  of a date in that form.
\<close>

definition spec_date_form :: "string \<Rightarrow> bool" where
  "spec_date_form s \<longleftrightarrow>
     (\<exists>d1 d2 m1 m2 y1 y2 y3 y4.
        s = [d1, d2, CHR ''/'', m1, m2, CHR ''/'', y1, y2, y3, y4] \<and>
        set [d1, d2, m1, m2, y1, y2, y3, y4] \<subseteq> set digit_chars)"

definition spec_date_of :: "string \<Rightarrow> date" where
  "spec_date_of s =
     (nat (dec_val (take 4 (drop 6 s))), nat (dec_val (take 2 (drop 3 s))), nat (dec_val (take 2 s)))"

definition digit_char :: "nat \<Rightarrow> char" where
  "digit_char n = char_of (48 + n mod 10)"

definition date_text :: "date \<Rightarrow> string" where
  "date_text dt =
     (case dt of (y, m, d) \<Rightarrow>
        [digit_char (d div 10), digit_char d, CHR ''/'',
         digit_char (m div 10), digit_char m, CHR ''/'',
         digit_char (y div 1000), digit_char (y div 100), digit_char (y div 10), digit_char y])"

section \<open>Properties of the matcher\<close>

lemma nullable_lang: "nullable r \<longleftrightarrow> [] \<in> lang r"
  by (induction r) (auto simp: conc_def intro: star.intros)

lemma conc_cons:
  "{w. c # w \<in> conc A B} =
     conc {w. c # w \<in> A} B \<union> (if [] \<in> A then {w. c # w \<in> B} else {})"
  by (auto simp: conc_def Cons_eq_append_conv)

lemma star_cons_split:
  assumes "w \<in> star A" and "w = c # w'"
  shows "\<exists>u v. w' = u @ v \<and> c # u \<in> A \<and> v \<in> star A"
  using assms
proof (induction arbitrary: w' rule: star.induct)
  case star_nil
  then show ?case by simp
next
  case (star_app u v)
  show ?case
  proof (cases u)
    case Nil
    with star_app show ?thesis by simp
  next
    case (Cons a u')
    with star_app.prems have "a = c" and "w' = u' @ v" by simp_all
    with Cons star_app.hyps show ?thesis by blast
  qed
qed

lemma star_cons:
  "{w. c # w \<in> star A} = conc {w. c # w \<in> A} (star A)"
proof (rule set_eqI, rule iffI)
  fix w assume "w \<in> {w. c # w \<in> star A}"
  then show "w \<in> conc {w. c # w \<in> A} (star A)"
    using star_cons_split [of "c # w" A c w] by (auto simp: conc_def)
next
  fix w assume "w \<in> conc {w. c # w \<in> A} (star A)"
  then obtain u v where "w = u @ v" "c # u \<in> A" "v \<in> star A"
    by (auto simp: conc_def)
  then show "w \<in> {w. c # w \<in> star A}"
    using star_app [of "c # u" A v] by simp
qed

lemma lang_deriv: "lang (deriv c r) = {w. c # w \<in> lang r}"
proof (induction r)
  case (Seq r s)
  then show ?case by (simp add: conc_cons nullable_lang)
next
  case (Star r)
  then show ?case by (simp add: star_cons)
qed auto

lemma fullmatch_lang: "fullmatch r w \<longleftrightarrow> w \<in> lang r"
  by (induction w arbitrary: r) (simp_all add: nullable_lang lang_deriv)

lemma lang_lit: "lang (lit s) = {s}"
  by (induction s) (auto simp: conc_def)

lemma conc_single: "conc {[c] | c. P c} B = {c # v | c v. P c \<and> v \<in> B}"
proof -
  have "c # v \<in> conc {[c] | c. P c} B" if "P c" "v \<in> B" for c v
  proof -
    have "[c] @ v \<in> conc {[c] | c. P c} B"
      unfolding conc_def using that by blast
    then show ?thesis by simp
  qed
  then show ?thesis by (auto simp: conc_def)
qed

lemma lang_Cls_rep: "lang (rep n (Cls cs)) = {w. length w = n \<and> set w \<subseteq> set cs}"
proof (induction n)
  case 0 then show ?case by auto
next
  case (Suc n)
  have "w \<in> lang (rep (Suc n) (Cls cs)) \<longleftrightarrow> length w = Suc n \<and> set w \<subseteq> set cs" for w
    by (cases w) (auto simp: conc_single Suc)
  then show ?case by blast
qed

lemma iban_pattern_iff: "check_regular iban_pattern s \<longleftrightarrow> spec_iban_format s"
proof -
  have "check_regular iban_pattern s \<longleftrightarrow>
      (\<exists>v. s = ''ES'' @ v \<and> length v = 22 \<and> set v \<subseteq> set digit_chars)"
    unfolding check_regular_def iban_pattern_def fullmatch_lang lang.simps lang_lit lang_Cls_rep
      conc_def
    by blast
  also have "\<dots> \<longleftrightarrow> spec_iban_format s"
  proof
    assume "\<exists>v. s = ''ES'' @ v \<and> length v = 22 \<and> set v \<subseteq> set digit_chars"
    then show "spec_iban_format s"
      by (auto simp: spec_iban_format_def list_all_iff)
  next
    assume f: "spec_iban_format s"
    then have "take 2 s = ''ES''" "length (drop 2 s) = 22"
      "set (drop 2 s) \<subseteq> set digit_chars"
      by (auto simp: spec_iban_format_def list_all_iff)
    moreover have "s = take 2 s @ drop 2 s"
      by simp
    ultimately show "\<exists>v. s = ''ES'' @ v \<and> length v = 22 \<and> set v \<subseteq> set digit_chars"
      by metis
  qed
  finally show ?thesis .
qed

lemma replace_char_append:
  "replace_char old new (a @ b) = replace_char old new a @ replace_char old new b"
  by (simp add: replace_char_def)

lemma replace_char_absent: "old \<notin> set s \<Longrightarrow> replace_char old new s = s"
  by (induction s) (auto simp: replace_char_def)

lemma replace_char_digits:
  "set ds \<subseteq> set digit_chars \<Longrightarrow> old \<notin> set digit_chars \<Longrightarrow> replace_char old new ds = ds"
  by (rule replace_char_absent) blast

lemma replace_letters_iban:
  assumes "set ds \<subseteq> set digit_chars"
  shows "replace_letters (ds @ ''ES00'') = ds @ ''142800''"
proof -
  have tail: "foldl (\<lambda>acc (old, new). replace_char old new acc) ''ES00'' letter_codes = ''142800''"
    by (simp add: letter_codes_def replace_char_def)
  have split: "foldl (\<lambda>acc (old, new). replace_char old new acc) (ds @ t) cs
      = ds @ foldl (\<lambda>acc (old, new). replace_char old new acc) t cs"
    if "\<forall>(old, new) \<in> set cs. old \<notin> set digit_chars" for t cs
    using that
    by (induction cs arbitrary: t)
       (auto simp: replace_char_append replace_char_digits [OF assms])
  have "\<forall>(old, new) \<in> set letter_codes. old \<notin> set digit_chars"
    by (simp add: letter_codes_def digit_chars_def)
  from split [OF this] tail show ?thesis
    by (simp add: replace_letters_def)
qed

lemma spec_subst_digits:
  "set ds \<subseteq> set digit_chars \<Longrightarrow> spec_subst_E_S (ds @ t) = ds @ spec_subst_E_S t"
  by (induction ds) (auto simp: spec_subst_E_S_def digit_chars_def)

lemma spec_iban_formatD:
  assumes "spec_iban_format s"
  obtains a b ds where "s = CHR ''E'' # CHR ''S'' # a # b # ds" "length ds = 20"
    "set ds \<subseteq> set digit_chars" "a \<in> set digit_chars" "b \<in> set digit_chars"
proof -
  from assms have len: "length s = 24" and pre: "take 2 s = ''ES''"
    and dig: "set (drop 2 s) \<subseteq> set digit_chars"
    by (auto simp: spec_iban_format_def list_all_iff)
  from len pre obtain r where s: "s = CHR ''E'' # CHR ''S'' # r" and "length r = 22"
    by (cases s; cases "tl s") (auto simp: take_Suc_conv_app_nth numeral_2_eq_2)
  then obtain a b ds where r: "r = a # b # ds" and "length ds = 20"
    by (cases r; cases "tl r") auto
  with s dig that show ?thesis by auto
qed

lemma py_int_digits:
  "s \<noteq> [] \<Longrightarrow> set s \<subseteq> set digit_chars \<Longrightarrow> py_int s = Inr (dec_val s)"
  by (auto simp: py_int_def list_all_iff)

lemma validate_iban_eq:
  "validate_iban iban =
     (if \<not> spec_iban_format iban then Inl (AccountManagementException ''Invalid IBAN format'')
      else if spec_check_code iban = 98 - dec_val (spec_numeric_transform iban) mod 97
           then Inr (spec_numeric_transform iban)
           else Inl (AccountManagementException ''Invalid IBAN control digit''))"
proof (cases "spec_iban_format iban")
  case False
  then show ?thesis by (simp add: validate_iban_def iban_pattern_iff)
next
  case True
  then obtain a b ds where s: "iban = CHR ''E'' # CHR ''S'' # a # b # ds" and len: "length ds = 20"
    and ds: "set ds \<subseteq> set digit_chars" and a: "a \<in> set digit_chars" and b: "b \<in> set digit_chars"
    by (rule spec_iban_formatD)
  have num: "spec_numeric_transform iban = ds @ ''142800''"
    using spec_subst_digits [OF ds, of "''ES00''"]
    by (simp add: spec_numeric_transform_def s) (simp add: spec_subst_E_S_def)
  have code: "replace_letters (ds @ ''ES00'') = ds @ ''142800''"
    by (rule replace_letters_iban [OF ds])
  have i1: "py_int (ds @ ''142800'') = Inr (dec_val (ds @ ''142800''))"
    using ds by (intro py_int_digits) (auto simp: digit_chars_def)
  have i2: "py_int [a, b] = Inr (dec_val [a, b])"
    using a b by (intro py_int_digits) auto
  from True show ?thesis
    by (simp add: validate_iban_def iban_pattern_iff s py_slice_def code i1 i2 num [unfolded s]
        spec_check_code_def Let_def)
qed

lemma validate_iban_no_ValueError: "validate_iban iban \<noteq> Inl ValueError"
  by (simp add: validate_iban_eq)

section \<open>Claims\<close>

text \<open>
  C1. IBAN validation. A string that is not \<open>ES\<close> followed by exactly 22 decimal digits
  raises the invalid format error. For a string of that form, with \<open>N\<close> the integer of
  its numeric transform (offsets 2 and 3 replaced by \<open>00\<close>, the first four characters
  moved to the end, \<open>E\<close> written as 14 and \<open>S\<close> as 28), validation returns the numeric
  string exactly when the declared check code equals \<open>98 - N mod 97\<close>, and raises the
  control digit error otherwise.
\<close>

theorem validate_iban_correct:
  "validate_iban iban =
     (if \<not> spec_iban_format iban then Inl (AccountManagementException ''Invalid IBAN format'')
      else if spec_check_code iban = 98 - dec_val (spec_numeric_transform iban) mod 97
           then Inr (spec_numeric_transform iban)
           else Inl (AccountManagementException ''Invalid IBAN control digit''))"
  by (rule validate_iban_eq)

text \<open>
  The two examples of the specification, and a string one digit short.
\<close>

theorem validate_iban_correct_witness:
  "validate_iban ''ES9121000418450200051332'' = Inr ''21000418450200051332142800'' \<and>
   validate_iban ''ES0021000418450200051332'' =
     Inl (AccountManagementException ''Invalid IBAN control digit'') \<and>
   validate_iban ''ES912100041845020005133'' =
     Inl (AccountManagementException ''Invalid IBAN format'')"
  using validate_iban_correct [of "''ES9121000418450200051332''"]
    validate_iban_correct [of "''ES0021000418450200051332''"]
    validate_iban_correct [of "''ES912100041845020005133''"]
  by (simp add: spec_iban_format_def spec_check_code_def spec_numeric_transform_def
      spec_subst_E_S_def dec_val_def digit_val_def digit_chars_def)

text \<open>
  C8, as the specification states it: a transfer type that merely contains one of the
  literals is tolerated, and a string accepted under one spelling of
  IMMEDIATE/INMEDIATE is accepted by the validator. Both fail: \<open>XURGENT\<close> contains
  \<open>URGENT\<close> and is rejected, and \<open>IMMEDIATE\<close>, which the older account manager accepts,
  is rejected by \<open>TransferRequest.validate_transfer_type\<close>.
\<close>

theorem transfer_type_substring_counterexample:
  "sublist ''URGENT'' ''XURGENT'' \<and>
   validate_transfer_type ''XURGENT'' = Inl (AccountManagementException ''Invalid transfer type'') \<and>
   validate_transfer_type_old ''IMMEDIATE'' = Inr () \<and>
   validate_transfer_type ''IMMEDIATE'' = Inl (AccountManagementException ''Invalid transfer type'')"
  by (simp add: validate_transfer_type_def validate_transfer_type_old_def check_regular_def
      transfer_type_pattern_def transfer_type_pattern_old_def sublist_code)

text \<open>
  C8, amended. \<open>check_regular\<close> uses \<open>fullmatch\<close>, so the whole string has to be one of
  the literals: \<open>TransferRequest.validate_transfer_type\<close> accepts exactly \<open>ORDINARY\<close>,
  \<open>INMEDIATE\<close> and \<open>URGENT\<close>, and the check in the older
  \<open>AccountManager.transfer_request\<close> accepts exactly \<open>ORDINARY\<close>, \<open>IMMEDIATE\<close> and
  \<open>URGENT\<close>; every other string raises the invalid transfer type error.
\<close>

theorem validate_transfer_type_exact:
  "validate_transfer_type t =
     (if t \<in> {''ORDINARY'', ''INMEDIATE'', ''URGENT''} then Inr ()
      else Inl (AccountManagementException ''Invalid transfer type'')) \<and>
   validate_transfer_type_old t =
     (if t \<in> {''ORDINARY'', ''IMMEDIATE'', ''URGENT''} then Inr ()
      else Inl (AccountManagementException ''Invalid transfer type''))"
  by (simp add: validate_transfer_type_def validate_transfer_type_old_def check_regular_def
      transfer_type_pattern_def transfer_type_pattern_old_def fullmatch_lang lang_lit
      del: lit.simps)

theorem validate_transfer_type_exact_witness:
  "validate_transfer_type ''INMEDIATE'' = Inr () \<and>
   validate_transfer_type ''ORDINARY URGENT'' =
     Inl (AccountManagementException ''Invalid transfer type'') \<and>
   validate_transfer_type_old ''INMEDIATE'' =
     Inl (AccountManagementException ''Invalid transfer type'')"
  using validate_transfer_type_exact [of "''INMEDIATE''"]
    validate_transfer_type_exact [of "''ORDINARY URGENT''"]
  by simp

end
